theory Spec2Isabelle
  imports Main
begin

section \<open>Values, exceptions and the catalog table\<close>

text \<open>
  The exceptions that the code of \<^verbatim>\<open>catalogs.py\<close> can meet. \<open>KeyError\<close> carries the
  missing key. \<open>ExecuteError\<close> is \<^verbatim>\<open>arcpy.ExecuteError\<close>, the only exception the dataset
  compiler catches; \<open>OtherError\<close> stands for every exception of a collaborator (table store,
  object store, file system, geodatabase reader) that the code has no handler for.
\<close>

datatype error =
    KeyError string
  | IndexError
  | TypeError
  | ExecuteError
  | OtherError string

text \<open>
  An attribute value of a scanned item, as the table resource hands it to Python: a string,
  a number (kept as its decimal text), binary data, a boolean, \<^verbatim>\<open>None\<close>, a list, a map, or a
  set of strings, numbers or binaries.
\<close>

datatype attr =
    S string
  | N string
  | B string
  | BOOL bool
  | NULL
  | L "attr list"
  | M "string \<Rightarrow> attr option"
  | SS "string set"
  | NS "string set"
  | BS "string set"

type_synonym item = "string \<Rightarrow> attr option"

text \<open>\<^verbatim>\<open>d[k]\<close> on a dictionary: the value, or \<^verbatim>\<open>KeyError\<close>.\<close>

definition getitem :: "item \<Rightarrow> string \<Rightarrow> error + attr" where
  "getitem d k = (case d k of None \<Rightarrow> Inl (KeyError k) | Some v \<Rightarrow> Inr v)"

text \<open>
  \<^verbatim>\<open>v[0]\<close> on an attribute value: the first element of a list, the first character of a
  string, \<^verbatim>\<open>IndexError\<close> when either is empty, \<^verbatim>\<open>KeyError\<close> on a map (its keys are
  strings), \<^verbatim>\<open>TypeError\<close> on every value that cannot be subscripted.
\<close>

fun subscript0 :: "attr \<Rightarrow> error + attr" where
  "subscript0 (L []) = Inl IndexError"
| "subscript0 (L (x # xs)) = Inr x"
| "subscript0 (S []) = Inl IndexError"
| "subscript0 (S (c # cs)) = Inr (S [c])"
| "subscript0 (M m) = Inl (KeyError ''0'')"
| "subscript0 _ = Inl TypeError"

text \<open>
  One answer of \<^verbatim>\<open>table.scan\<close>: the page of items, and the continuation key when more
  pages remain.
\<close>

record response =
  Items :: "item list"
  LastEvaluatedKey :: "item option"

text \<open>
  The table store: for a table name and an optional \<^verbatim>\<open>ExclusiveStartKey\<close>, the answer of
  one scan request or the exception it raises. A store that nobody writes to between two
  requests is one such function.
\<close>

type_synonym backend = "string \<Rightarrow> item option \<Rightarrow> error + response"

section \<open>The paginated scan\<close>

text \<open>
  The \<^verbatim>\<open>while 'LastEvaluatedKey' in response\<close> loop of \<^verbatim>\<open>__queryCatalog__\<close>. It runs for as
  long as the store keeps returning continuation keys, so it is a partial function:
  \<open>None\<close> is a scan that never returns, \<open>Some (Inl e)\<close> one that raised \<open>e\<close>.
\<close>

partial_function (option) scan_loop ::
  "backend \<Rightarrow> string \<Rightarrow> response \<Rightarrow> item list \<Rightarrow> (error + item list) option" where
  "scan_loop scan tbl response list_dict =
     (case LastEvaluatedKey response of
        None \<Rightarrow> Some (Inr list_dict)
      | Some k \<Rightarrow>
          (case scan tbl (Some k) of
             Inl e \<Rightarrow> Some (Inl e)
           | Inr response' \<Rightarrow> scan_loop scan tbl response' (list_dict @ Items response')))"

declare scan_loop.simps [code]

definition queryCatalog :: "backend \<Rightarrow> string \<Rightarrow> (error + item list) option" where
  "queryCatalog scan tbl =
     (case scan tbl None of
        Inl e \<Rightarrow> Some (Inl e)
      | Inr response \<Rightarrow> scan_loop scan tbl response (Items response))"

text \<open>
  A store serves the pages \<open>p # ps\<close> of a table when its first answer holds \<open>p\<close>, every
  answer but the last carries a continuation key, and the request with that key is
  answered by the next page.
\<close>

fun continues :: "backend \<Rightarrow> string \<Rightarrow> response \<Rightarrow> item list list \<Rightarrow> bool" where
  "continues scan tbl r [] = (LastEvaluatedKey r = None)"
| "continues scan tbl r (p # ps) =
     (case LastEvaluatedKey r of
        None \<Rightarrow> False
      | Some k \<Rightarrow>
          (case scan tbl (Some k) of
             Inl e \<Rightarrow> False
           | Inr r' \<Rightarrow> Items r' = p \<and> continues scan tbl r' ps))"

fun serves :: "backend \<Rightarrow> string \<Rightarrow> item list list \<Rightarrow> bool" where
  "serves scan tbl [] = False"
| "serves scan tbl (p # ps) =
     (case scan tbl None of
        Inl e \<Rightarrow> False
      | Inr r \<Rightarrow> Items r = p \<and> continues scan tbl r ps)"

text \<open>A table of three pages, used to exercise the scan.\<close>

definition rec1 :: item where
  "rec1 = [''feature-name'' \<mapsto> S ''roads'', ''s3-versionID'' \<mapsto> S ''v1'',
           ''feature-type'' \<mapsto> S ''Feature Class'',
           ''s3-file-gdb-zip-location'' \<mapsto> S ''s3://geo/roads.zip'',
           ''fields'' \<mapsto> L [S ''block1'', S ''block2'']]"

definition rec2 :: item where
  "rec2 = [''feature-name'' \<mapsto> S ''dem'', ''s3-versionID'' \<mapsto> S ''v2'',
           ''feature-type'' \<mapsto> S ''Raster Dataset'',
           ''s3-file-gdb-zip-location'' \<mapsto> S ''s3://geo/dem.zip'',
           ''fields'' \<mapsto> L [S ''bands'']]"

definition rec3 :: item where
  "rec3 = [''feature-name'' \<mapsto> S ''rivers'', ''s3-versionID'' \<mapsto> S ''v2'',
           ''feature-type'' \<mapsto> S ''Feature Class'',
           ''s3-file-gdb-zip-location'' \<mapsto> S ''s3://geo/dem.zip'',
           ''fields'' \<mapsto> L [S ''len'']]"

definition key1 :: item where
  "key1 = [''feature-name'' \<mapsto> S ''roads'']"

definition key2 :: item where
  "key2 = [''feature-name'' \<mapsto> S ''dem'']"

definition three_pages :: backend where
  "three_pages tbl start =
     (if tbl \<noteq> ''jge-catalog-test-03'' then Inl (OtherError ''ResourceNotFoundException'')
      else case start of
        None \<Rightarrow> Inr \<lparr>Items = [rec1], LastEvaluatedKey = Some key1\<rparr>
      | Some k \<Rightarrow>
          (if k ''feature-name'' = Some (S ''roads'')
           then Inr \<lparr>Items = [rec2, rec3], LastEvaluatedKey = Some key2\<rparr>
           else Inr \<lparr>Items = [], LastEvaluatedKey = None\<rparr>))"

section \<open>The catalog index\<close>

text \<open>
  The two data frames built at construction. A frame is the list of its rows; the frames
  are built row by row with \<^verbatim>\<open>df.append(row_data, ignore_index=True)\<close>, which returns the
  frame with the row added at the end, so the label of a row is its position.
\<close>

record feature_row =
  feature_name :: attr
  s3_versionID :: attr
  feature_type :: attr
  s3_file_gdb_zip_location :: attr

record metadata_row =
  md_feature_name :: attr
  md_s3_versionID :: attr
  md_fields :: attr

text \<open>The \<^verbatim>\<open>row_data\<close> dictionary of \<^verbatim>\<open>__getCatalogFeatures__\<close>, keys read in source order.\<close>

definition feature_row_data :: "item \<Rightarrow> error + feature_row" where
  "feature_row_data dict_entry =
     (case getitem dict_entry ''feature-name'' of Inl e \<Rightarrow> Inl e | Inr fname \<Rightarrow>
     (case getitem dict_entry ''s3-versionID'' of Inl e \<Rightarrow> Inl e | Inr ver \<Rightarrow>
     (case getitem dict_entry ''feature-type'' of Inl e \<Rightarrow> Inl e | Inr ftype \<Rightarrow>
     (case getitem dict_entry ''s3-file-gdb-zip-location'' of Inl e \<Rightarrow> Inl e | Inr loc \<Rightarrow>
        Inr \<lparr>feature_name = fname, s3_versionID = ver, feature_type = ftype,
             s3_file_gdb_zip_location = loc\<rparr>))))"

fun getCatalogFeatures_loop :: "item list \<Rightarrow> feature_row list \<Rightarrow> error + feature_row list" where
  "getCatalogFeatures_loop [] df = Inr df"
| "getCatalogFeatures_loop (dict_entry # rest) df =
     (case feature_row_data dict_entry of
        Inl e \<Rightarrow> Inl e
      | Inr row_data \<Rightarrow> getCatalogFeatures_loop rest (df @ [row_data]))"

definition getCatalogFeatures :: "item list \<Rightarrow> error + feature_row list" where
  "getCatalogFeatures list_dict = getCatalogFeatures_loop list_dict []"

text \<open>
  The \<^verbatim>\<open>row_data\<close> dictionary of \<^verbatim>\<open>__getCatalogMetadata__\<close>: \<^verbatim>\<open>ds['fields'][0]\<close> keeps
  the first element of the record's fields only.
\<close>

definition metadata_row_data :: "item \<Rightarrow> error + metadata_row" where
  "metadata_row_data ds =
     (case getitem ds ''feature-name'' of Inl e \<Rightarrow> Inl e | Inr fname \<Rightarrow>
     (case getitem ds ''s3-versionID'' of Inl e \<Rightarrow> Inl e | Inr ver \<Rightarrow>
     (case getitem ds ''fields'' of Inl e \<Rightarrow> Inl e | Inr fs \<Rightarrow>
     (case subscript0 fs of Inl e \<Rightarrow> Inl e | Inr block \<Rightarrow>
        Inr \<lparr>md_feature_name = fname, md_s3_versionID = ver, md_fields = block\<rparr>))))"

fun getCatalogMetadata_loop :: "item list \<Rightarrow> metadata_row list \<Rightarrow> error + metadata_row list" where
  "getCatalogMetadata_loop [] df = Inr df"
| "getCatalogMetadata_loop (ds # rest) df =
     (case metadata_row_data ds of
        Inl e \<Rightarrow> Inl e
      | Inr row_data \<Rightarrow> getCatalogMetadata_loop rest (df @ [row_data]))"

definition getCatalogMetadata :: "item list \<Rightarrow> error + metadata_row list" where
  "getCatalogMetadata dataset = getCatalogMetadata_loop dataset []"

text \<open>The catalog object: the private attributes set by \<^verbatim>\<open>__init__\<close>.\<close>

record catalog =
  table :: string
  ds :: "item list"
  Features :: "feature_row list"
  Metadata :: "metadata_row list"
  FeaturesCount :: nat

text \<open>
  \<^verbatim>\<open>__init__\<close>: scan, then the feature frame over the whole scan, then the metadata frame.
  An exception of any step leaves no object.
\<close>

definition init :: "backend \<Rightarrow> string \<Rightarrow> (error + catalog) option" where
  "init scan tbl =
     (case queryCatalog scan tbl of
        None \<Rightarrow> None
      | Some (Inl e) \<Rightarrow> Some (Inl e)
      | Some (Inr list_dict) \<Rightarrow>
          (case getCatalogFeatures list_dict of
             Inl e \<Rightarrow> Some (Inl e)
           | Inr feats \<Rightarrow>
               (case getCatalogMetadata list_dict of
                  Inl e \<Rightarrow> Some (Inl e)
                | Inr meta \<Rightarrow>
                    Some (Inr \<lparr>table = tbl, ds = list_dict, Features = feats,
                               Metadata = meta, FeaturesCount = length feats\<rparr>))))"

definition getCatalogName :: "catalog \<Rightarrow> string" where
  "getCatalogName self = table self"

definition getFeatures :: "catalog \<Rightarrow> feature_row list" where
  "getFeatures self = Features self"

text \<open>\<^verbatim>\<open>dumps\<close> calls the scan again, on the table the object names.\<close>

definition dumps :: "backend \<Rightarrow> catalog \<Rightarrow> (error + item list) option" where
  "dumps scan self = queryCatalog scan (table self)"

section \<open>Queries on the frames\<close>

text \<open>\<^verbatim>\<open>df[label]\<close>: the column of that label, \<^verbatim>\<open>KeyError\<close> for a label the frame lacks.\<close>

definition features_column :: "string \<Rightarrow> error + (feature_row \<Rightarrow> attr)" where
  "features_column label =
     (if label = ''feature-name'' then Inr feature_name
      else if label = ''s3-versionID'' then Inr s3_versionID
      else if label = ''feature-type'' then Inr feature_type
      else if label = ''s3-file-gdb-zip-location'' then Inr s3_file_gdb_zip_location
      else Inl (KeyError label))"

definition metadata_column :: "string \<Rightarrow> error + (metadata_row \<Rightarrow> attr)" where
  "metadata_column label =
     (if label = ''feature-name'' then Inr md_feature_name
      else if label = ''s3-versionID'' then Inr md_s3_versionID
      else if label = ''fields'' then Inr md_fields
      else Inl (KeyError label))"

text \<open>A list of labels selects the values of a row in that order.\<close>

fun features_columns :: "string list \<Rightarrow> error + (feature_row \<Rightarrow> attr list)" where
  "features_columns [] = Inr (\<lambda>r. [])"
| "features_columns (label # labels) =
     (case features_column label of
        Inl e \<Rightarrow> Inl e
      | Inr c \<Rightarrow>
          (case features_columns labels of
             Inl e \<Rightarrow> Inl e
           | Inr cs \<Rightarrow> Inr (\<lambda>r. c r # cs r)))"

text \<open>
  \<^verbatim>\<open>df.loc[mask]\<close> with a boolean mask: the rows whose mask entry is true, each with the
  label it had in \<open>df\<close>.
\<close>

definition loc_mask :: "'row list \<Rightarrow> bool list \<Rightarrow> (nat \<times> 'row) list" where
  "loc_mask df cond = map snd (filter fst (zip cond (enumerate 0 df)))"

text \<open>
  \<^verbatim>\<open>getMetaData\<close>. The comparisons of a column with a string are element by element; an
  element equals the string only when it is that string. The handlers of the source turn
  \<^verbatim>\<open>IndexError\<close> and \<^verbatim>\<open>KeyError\<close> of the selection into the initial result \<^verbatim>\<open>[]\<close>.
\<close>

definition getMetaData :: "catalog \<Rightarrow> string \<Rightarrow> string \<Rightarrow> error + attr list" where
  "getMetaData self featureName versionID =
     (let df = Metadata self in
      (case metadata_column ''feature-name'' of Inl e \<Rightarrow> Inl e | Inr name_col \<Rightarrow>
      (case metadata_column ''s3-versionID'' of Inl e \<Rightarrow> Inl e | Inr ver_col \<Rightarrow>
        (let cond1 = map (\<lambda>r. name_col r = S featureName) df;
             cond2 = map (\<lambda>r. ver_col r = S versionID) df;
             result = []
         in case (case metadata_column ''fields'' of
                    Inl e \<Rightarrow> Inl e
                  | Inr col \<Rightarrow>
                      Inr (map (\<lambda>(i, r). col r)
                             (loc_mask df (map2 (\<and>) cond1 cond2)))) of
              Inr vals \<Rightarrow> Inr vals
            | Inl IndexError \<Rightarrow> Inr result
            | Inl (KeyError k) \<Rightarrow> Inr result
            | Inl e \<Rightarrow> Inl e))))"

text \<open>
  The loop of \<^verbatim>\<open>getObjectsByVersionID\<close> over the labels of the selection: \<^verbatim>\<open>res.loc[i]\<close> is
  the selected row of label \<open>i\<close>, appended to the entry of the queried version.
\<close>

fun objects_loop ::
  "(nat \<times> attr list) list \<Rightarrow> nat list \<Rightarrow> string \<Rightarrow> (string \<Rightarrow> attr list list option) \<Rightarrow>
     error + (string \<Rightarrow> attr list list option)" where
  "objects_loop res [] versionID db = Inr db"
| "objects_loop res (i # rest) versionID db =
     (case map_of res i of
        None \<Rightarrow> Inl (KeyError ''label'')
      | Some vals \<Rightarrow>
          (case db versionID of
             Some entries \<Rightarrow> objects_loop res rest versionID (db(versionID \<mapsto> entries @ [vals]))
           | None \<Rightarrow> objects_loop res rest versionID (db(versionID \<mapsto> [vals]))))"

definition getObjectsByVersionID ::
  "catalog \<Rightarrow> string \<Rightarrow> error + (string \<Rightarrow> attr list list option)" where
  "getObjectsByVersionID self versionID =
     (let df = Features self; db = Map.empty in
      (case features_column ''s3-versionID'' of Inl e \<Rightarrow> Inl e | Inr ver_col \<Rightarrow>
      (case features_columns [''feature-name'', ''feature-type'', ''s3-file-gdb-zip-location''] of
        Inl e \<Rightarrow> Inl e
      | Inr cols \<Rightarrow>
          (let res = map (\<lambda>(i, r). (i, cols r))
                       (loc_mask df (map (\<lambda>r. ver_col r = S versionID) df))
           in if length res = 0 then Inr db
              else objects_loop res (map fst res) versionID db))))"

text \<open>The catalog that construction yields from the table of three pages.\<close>

definition row1 :: feature_row where
  "row1 = \<lparr>feature_name = S ''roads'', s3_versionID = S ''v1'', feature_type = S ''Feature Class'',
           s3_file_gdb_zip_location = S ''s3://geo/roads.zip''\<rparr>"

definition row2 :: feature_row where
  "row2 = \<lparr>feature_name = S ''dem'', s3_versionID = S ''v2'', feature_type = S ''Raster Dataset'',
           s3_file_gdb_zip_location = S ''s3://geo/dem.zip''\<rparr>"

definition row3 :: feature_row where
  "row3 = \<lparr>feature_name = S ''rivers'', s3_versionID = S ''v2'', feature_type = S ''Feature Class'',
           s3_file_gdb_zip_location = S ''s3://geo/dem.zip''\<rparr>"

definition catalog3 :: catalog where
  "catalog3 =
     \<lparr>table = ''jge-catalog-test-03'', ds = [rec1, rec2, rec3],
      Features = [row1, row2, row3],
      Metadata =
        [\<lparr>md_feature_name = S ''roads'', md_s3_versionID = S ''v1'', md_fields = S ''block1''\<rparr>,
         \<lparr>md_feature_name = S ''dem'', md_s3_versionID = S ''v2'', md_fields = S ''bands''\<rparr>,
         \<lparr>md_feature_name = S ''rivers'', md_s3_versionID = S ''v2'', md_fields = S ''len''\<rparr>],
      FeaturesCount = 3\<rparr>"

text \<open>
  A table of one page whose second record has an empty fields list, and a catalog object
  on the three-page table whose cached scan and frames are empty.
\<close>

definition rec_no_fields :: item where
  "rec_no_fields = [''feature-name'' \<mapsto> S ''lakes'', ''s3-versionID'' \<mapsto> S ''v3'',
           ''feature-type'' \<mapsto> S ''Feature Class'',
           ''s3-file-gdb-zip-location'' \<mapsto> S ''s3://geo/lakes.zip'',
           ''fields'' \<mapsto> L []]"

definition one_page :: backend where
  "one_page tbl start = Inr \<lparr>Items = [rec1, rec_no_fields], LastEvaluatedKey = None\<rparr>"

definition stale_catalog :: catalog where
  "stale_catalog =
     \<lparr>table = ''jge-catalog-test-03'', ds = [], Features = [], Metadata = [], FeaturesCount = 0\<rparr>"

section \<open>The archive fetcher\<close>

text \<open>
  The pattern \<^verbatim>\<open>s3:\/\/(.*?)\/(.*)\<close>, applied by \<^verbatim>\<open>match\<close> at the start of the string. The dot
  matches every character but the line feed. The lazy first group followed by the slash
  is the run of characters up to the first slash, and there is no match when a line feed
  comes before that slash; the greedy second group runs to the first line feed or to the end
  of the string, and \<^verbatim>\<open>match\<close> does not ask that the string ends there.
\<close>

fun lazy_group :: "string \<Rightarrow> (string \<times> string) option" where
  "lazy_group [] = None"
| "lazy_group (c # cs) =
     (if c = CHR ''/'' then Some ([], cs)
      else if c = CHR 0x0A then None
      else (case lazy_group cs of
              None \<Rightarrow> None
            | Some (g, rest) \<Rightarrow> Some (c # g, rest)))"

definition greedy_group :: "string \<Rightarrow> string" where
  "greedy_group s = takeWhile (\<lambda>c. c \<noteq> CHR 0x0A) s"

definition bucket_and_key_match :: "string \<Rightarrow> (string \<times> string) option" where
  "bucket_and_key_match s3_location =
     (if take 5 s3_location = ''s3://''
      then (case lazy_group (drop 5 s3_location) of
              None \<Rightarrow> None
            | Some (g1, rest) \<Rightarrow> Some (g1, greedy_group rest))
      else None)"

text \<open>
  \<^verbatim>\<open>__extractBucketAndKey__\<close>: \<^verbatim>\<open>match\<close> raises \<^verbatim>\<open>TypeError\<close> on a value that is not a
  string, and \<^verbatim>\<open>m[1]\<close> raises \<^verbatim>\<open>TypeError\<close> when there was no match and \<^verbatim>\<open>m\<close> is \<^verbatim>\<open>None\<close>.
\<close>

definition extractBucketAndKey :: "attr \<Rightarrow> error + string \<times> string" where
  "extractBucketAndKey s3_location =
     (case s3_location of
        S s \<Rightarrow>
          (case bucket_and_key_match s of
             None \<Rightarrow> Inl TypeError
           | Some (bucket, key) \<Rightarrow> Inr (bucket, key))
      | _ \<Rightarrow> Inl TypeError)"

text \<open>
  \<^verbatim>\<open>__download_s3_zip__\<close>. Step 1 selects the location column of the rows of the version,
  keeps the first row (\<^verbatim>\<open>head(1)\<close>) and reads \<^verbatim>\<open>s3_key[0][0]\<close>. Steps 2 and 3 (scratch
  directory, download, unzip, path of the unpacked geodatabase) are calls of \<^verbatim>\<open>os\<close>,
  \<^verbatim>\<open>boto3\<close> and \<^verbatim>\<open>zipfile\<close>; they are the parameter \<open>stage\<close>, which maps bucket and key to
  the path of the geodatabase or to the exception raised on the way.
\<close>

definition download_s3_zip ::
  "(string \<Rightarrow> string \<Rightarrow> error + string) \<Rightarrow> catalog \<Rightarrow> string \<Rightarrow> error + string" where
  "download_s3_zip stage self versionID =
     (let df = getFeatures self in
      (case features_column ''s3-versionID'' of Inl e \<Rightarrow> Inl e | Inr ver_col \<Rightarrow>
      (case features_columns [''s3-file-gdb-zip-location''] of Inl e \<Rightarrow> Inl e | Inr cols \<Rightarrow>
        (let c1 = map (\<lambda>r. ver_col r = S versionID) df;
             s3_key = map (\<lambda>(i, r). cols r) (take 1 (loc_mask df c1))
         in (case s3_key of
               [] \<Rightarrow> Inl IndexError
             | first_row # _ \<Rightarrow>
                 (case first_row of
                    [] \<Rightarrow> Inl IndexError
                  | location # _ \<Rightarrow>
                      (case extractBucketAndKey location of
                         Inl e \<Rightarrow> Inl e
                       | Inr (bucket, key) \<Rightarrow> stage bucket key)))))))"

section \<open>The dataset compiler\<close>

text \<open>
  An array as the compiler uses it: its \<^verbatim>\<open>shape\<close> and its contents, which the compiler
  never looks into.
\<close>

record 'a ndarray =
  shape :: "nat list"
  payload :: 'a

text \<open>
  The geodatabase reader. Its functions read the ambient \<^verbatim>\<open>arcpy.env.workspace\<close>, which
  is their first argument here; each returns its value or the exception it raises.
  \<open>Describe_fields\<close> is \<^verbatim>\<open>[field.name for field in arcpy.Describe(v).fields]\<close>, and
  \<open>TableToNumPyArray\<close> is called with \<^verbatim>\<open>null_value='-'\<close> and \<^verbatim>\<open>skip_nulls=True\<close>.
\<close>

record 'a arcpy =
  ListRasters :: "string option \<Rightarrow> error + string list"
  RasterToNumPyArray :: "string option \<Rightarrow> string \<Rightarrow> error + 'a ndarray"
  ListFeatureClasses :: "string option \<Rightarrow> error + string list"
  Describe_fields :: "string option \<Rightarrow> string \<Rightarrow> error + string list"
  TableToNumPyArray :: "string option \<Rightarrow> string \<Rightarrow> string list \<Rightarrow> error + 'a ndarray"
  Delete :: "string \<Rightarrow> error option"

text \<open>An entry of the compiled dataset, with the keys of the source's dictionary.\<close>

record 'a layer =
  layer_s3_versionID :: string
  layer_feature_type :: string
  layer_shape :: "nat list"
  layer_columns :: "string list"
  layer_data :: "'a ndarray list"

text \<open>The body of the first \<^verbatim>\<open>try\<close>: read the raster, then the entry it would store.\<close>

definition raster_entry ::
  "'a arcpy \<Rightarrow> string option \<Rightarrow> string \<Rightarrow> string \<Rightarrow> error + 'a layer" where
  "raster_entry reader workspace versionID in_raster =
     (case RasterToNumPyArray reader workspace in_raster of
        Inl e \<Rightarrow> Inl e
      | Inr in_raster_arr \<Rightarrow>
          Inr \<lparr>layer_s3_versionID = versionID, layer_feature_type = ''Raster Dataset'',
               layer_shape = shape in_raster_arr, layer_columns = [],
               layer_data = [in_raster_arr]\<rparr>)"

text \<open>The body of the second \<^verbatim>\<open>try\<close>: field names, then the table, then the entry.\<close>

definition vector_entry ::
  "'a arcpy \<Rightarrow> string option \<Rightarrow> string \<Rightarrow> string \<Rightarrow> error + 'a layer" where
  "vector_entry reader workspace versionID in_vector =
     (case Describe_fields reader workspace in_vector of
        Inl e \<Rightarrow> Inl e
      | Inr field_names \<Rightarrow>
          (case TableToNumPyArray reader workspace in_vector field_names of
             Inl e \<Rightarrow> Inl e
           | Inr in_vector_arr \<Rightarrow>
               Inr \<lparr>layer_s3_versionID = versionID, layer_feature_type = ''Feature Class'',
                    layer_shape = shape in_vector_arr, layer_columns = field_names,
                    layer_data = [in_vector_arr]\<rparr>))"

text \<open>
  One loop of \<^verbatim>\<open>__compileDataset__\<close> over the listed names: an entry is stored unless the
  name is there already, \<^verbatim>\<open>ExecuteError\<close> is caught and the object skipped, and every other
  exception leaves the loop.
\<close>

fun compile_loop ::
  "(string \<Rightarrow> error + 'a layer) \<Rightarrow> string list \<Rightarrow> (string \<Rightarrow> 'a layer option) \<Rightarrow>
     error + (string \<Rightarrow> 'a layer option)" where
  "compile_loop entry_of [] dataset0 = Inr dataset0"
| "compile_loop entry_of (name # rest) dataset0 =
     (case entry_of name of
        Inr e \<Rightarrow>
          compile_loop entry_of rest
            (if dataset0 name = None then dataset0(name \<mapsto> e) else dataset0)
      | Inl ExecuteError \<Rightarrow> compile_loop entry_of rest dataset0
      | Inl err \<Rightarrow> Inl err)"

text \<open>
  \<^verbatim>\<open>__compileDataset__\<close> returns the list \<^verbatim>\<open>[dataset[0]]\<close> of one dictionary. The second
  component of the result is \<^verbatim>\<open>arcpy.env.workspace\<close> as the call leaves it: the assignment
  of \<^verbatim>\<open>None\<close> is the last statement before \<^verbatim>\<open>return\<close>.
\<close>

definition compileDataset ::
  "'a arcpy \<Rightarrow> string \<Rightarrow> string \<Rightarrow>
     (error + (string \<Rightarrow> 'a layer option) list) \<times> string option" where
  "compileDataset reader abs_path_file_gdb versionID =
     (let workspace = Some abs_path_file_gdb in
      (case ListRasters reader workspace of
         Inl e \<Rightarrow> (Inl e, workspace)
       | Inr rasters \<Rightarrow>
           (case compile_loop (raster_entry reader workspace versionID) rasters Map.empty of
              Inl e \<Rightarrow> (Inl e, workspace)
            | Inr dataset1 \<Rightarrow>
                (case ListFeatureClasses reader workspace of
                   Inl e \<Rightarrow> (Inl e, workspace)
                 | Inr vectors \<Rightarrow>
                     (case compile_loop (vector_entry reader workspace versionID) vectors
                             dataset1 of
                        Inl e \<Rightarrow> (Inl e, workspace)
                      | Inr dataset2 \<Rightarrow> (Inr [dataset2], None))))))"

text \<open>
  \<^verbatim>\<open>retrieveDataset\<close>: fetch, compile, delete the unpacked geodatabase. \<open>workspace0\<close> is the
  reader's workspace before the call.
\<close>

definition retrieveDataset ::
  "(string \<Rightarrow> string \<Rightarrow> error + string) \<Rightarrow> 'a arcpy \<Rightarrow> string option \<Rightarrow> catalog \<Rightarrow> string \<Rightarrow>
     (error + (string \<Rightarrow> 'a layer option) list) \<times> string option" where
  "retrieveDataset stage reader workspace0 self versionID =
     (case download_s3_zip stage self versionID of
        Inl e \<Rightarrow> (Inl e, workspace0)
      | Inr file_gdb \<Rightarrow>
          (case compileDataset reader file_gdb versionID of
             (Inl e, workspace) \<Rightarrow> (Inl e, workspace)
           | (Inr dataset, workspace) \<Rightarrow>
               (case Delete reader file_gdb of
                  Some e \<Rightarrow> (Inl e, workspace)
                | None \<Rightarrow> (Inr dataset, workspace))))"

section \<open>Vocabulary of the properties\<close>

text \<open>The rows of the feature frame that carry a version, and the values listed for a row.\<close>

definition version_rows :: "catalog \<Rightarrow> string \<Rightarrow> feature_row list" where
  "version_rows self versionID = filter (\<lambda>r. s3_versionID r = S versionID) (Features self)"

definition entry :: "feature_row \<Rightarrow> attr list" where
  "entry r = [feature_name r, feature_type r, s3_file_gdb_zip_location r]"

text \<open>
  A value that \<^verbatim>\<open>[0]\<close> can read: a non-empty list or a non-empty string. A record that
  both frames can be built from has the four keys of the feature frame and such a value
  under \<^verbatim>\<open>fields\<close>.
\<close>

fun nonempty_sequence :: "attr \<Rightarrow> bool" where
  "nonempty_sequence (L (x # xs)) = True"
| "nonempty_sequence (S (c # cs)) = True"
| "nonempty_sequence _ = False"

definition indexable :: "item \<Rightarrow> bool" where
  "indexable d =
     (d ''feature-name'' \<noteq> None \<and> d ''s3-versionID'' \<noteq> None \<and>
      d ''feature-type'' \<noteq> None \<and> d ''s3-file-gdb-zip-location'' \<noteq> None \<and>
      (case d ''fields'' of None \<Rightarrow> False | Some fs \<Rightarrow> nonempty_sequence fs))"

definition matching_records :: "catalog \<Rightarrow> string \<Rightarrow> string \<Rightarrow> item list" where
  "matching_records self featureName versionID =
     filter (\<lambda>d. d ''feature-name'' = Some (S featureName) \<and>
                 d ''s3-versionID'' = Some (S versionID)) (ds self)"

definition first_block :: "item \<Rightarrow> attr \<Rightarrow> bool" where
  "first_block d b = (case d ''fields'' of None \<Rightarrow> False | Some fs \<Rightarrow> subscript0 fs = Inr b)"

text \<open>
  For a loop of the compiler: every listed object is read or fails with \<^verbatim>\<open>ExecuteError\<close>,
  and the entries the loop keeps, which are those of the listed objects that were read.
\<close>

definition only_read_failures :: "(string \<Rightarrow> error + 'b) \<Rightarrow> string list \<Rightarrow> bool" where
  "only_read_failures entry_of names =
     list_all (\<lambda>n. case entry_of n of Inr e \<Rightarrow> True | Inl err \<Rightarrow> err = ExecuteError) names"

definition kept :: "(string \<Rightarrow> error + 'b) \<Rightarrow> string list \<Rightarrow> string \<Rightarrow> 'b option" where
  "kept entry_of names n =
     (if n \<in> set names then (case entry_of n of Inr e \<Rightarrow> Some e | Inl err \<Rightarrow> None) else None)"

text \<open>
  A reader on the workspace \<^verbatim>\<open>temp/dem.gdb\<close> with one raster \<^verbatim>\<open>R1\<close>, whose read is the
  parameter, and one feature class \<^verbatim>\<open>V1\<close> of three fields and five rows; and a raster
  array of ten by ten cells.
\<close>

definition archive_reader :: "(error + string ndarray) \<Rightarrow> string arcpy" where
  "archive_reader raster =
     \<lparr>ListRasters = (\<lambda>ws. if ws = Some ''temp/dem.gdb'' then Inr [''R1''] else Inr []),
      RasterToNumPyArray = (\<lambda>ws n. if ws = Some ''temp/dem.gdb'' \<and> n = ''R1'' then raster
                                    else Inl ExecuteError),
      ListFeatureClasses = (\<lambda>ws. if ws = Some ''temp/dem.gdb'' then Inr [''V1''] else Inr []),
      Describe_fields = (\<lambda>ws n. if ws = Some ''temp/dem.gdb'' \<and> n = ''V1''
                                 then Inr [''OBJECTID'', ''Shape'', ''name'']
                                 else Inl (OtherError ''IOError'')),
      TableToNumPyArray = (\<lambda>ws n fs. if ws = Some ''temp/dem.gdb'' \<and> n = ''V1''
                                      then Inr \<lparr>shape = [5], payload = ''rows''\<rparr>
                                      else Inl (OtherError ''RuntimeError'')),
      Delete = (\<lambda>p. None)\<rparr>"

definition grid :: "string ndarray" where
  "grid = \<lparr>shape = [10, 10], payload = ''cells''\<rparr>"

section \<open>Pagination is lossless\<close>

lemma scan_loop_continues:
  "continues scan tbl r ps \<Longrightarrow>
     scan_loop scan tbl r acc = Some (Inr (acc @ concat ps))"
proof (induction ps arbitrary: r acc)
  case Nil
  then show ?case by (subst scan_loop.simps) simp
next
  case (Cons p ps)
  from Cons.prems obtain k r' where k: "LastEvaluatedKey r = Some k"
    and r': "scan tbl (Some k) = Inr r'" and p: "Items r' = p"
    and rest: "continues scan tbl r' ps"
    by (auto split: option.splits sum.splits)
  have "scan_loop scan tbl r acc = scan_loop scan tbl r' (acc @ Items r')"
    by (subst scan_loop.simps) (simp add: k r')
  also have "\<dots> = Some (Inr ((acc @ Items r') @ concat ps))"
    by (rule Cons.IH [OF rest])
  finally show ?case by (simp add: p)
qed

lemma queryCatalog_serves:
  assumes "serves scan tbl pages"
  shows "queryCatalog scan tbl = Some (Inr (concat pages))"
proof (cases pages)
  case Nil
  with assms show ?thesis by simp
next
  case (Cons p ps)
  with assms obtain r where r: "scan tbl None = Inr r" and p: "Items r = p"
    and rest: "continues scan tbl r ps"
    by (auto split: sum.splits)
  show ?thesis
    unfolding queryCatalog_def
    by (simp add: r scan_loop_continues [OF rest] p Cons)
qed

text \<open>
  Claim C1. Whenever the store serves a table as N pages, N at least one, with a
  continuation key on every page but the last, the scan returns, raises nothing, and its
  result is the concatenation of the pages in page order: every item of every page, once.
\<close>

theorem queryCatalog_concat_pages:
  "serves scan tbl pages \<Longrightarrow> queryCatalog scan tbl = Some (Inr (concat pages))"
  by (rule queryCatalog_serves)

lemma three_pages_serves:
  "serves three_pages ''jge-catalog-test-03'' [[rec1], [rec2, rec3], []]"
  by (simp add: three_pages_def key1_def key2_def)

theorem queryCatalog_concat_pages_witness:
  "serves three_pages ''jge-catalog-test-03'' [[rec1], [rec2, rec3], []] \<and>
   queryCatalog three_pages ''jge-catalog-test-03'' = Some (Inr [rec1, rec2, rec3])"
  using queryCatalog_concat_pages [OF three_pages_serves] three_pages_serves by simp

section \<open>Frames and selections\<close>

lemma loc_mask_map_gen:
  "map snd (filter fst (zip (map p xs) (enumerate n xs))) = filter (\<lambda>(i, r). p r) (enumerate n xs)"
  by (induction xs arbitrary: n) auto

lemma loc_mask_map: "loc_mask df (map p df) = filter (\<lambda>(i, r). p r) (enumerate 0 df)"
  by (simp add: loc_mask_def loc_mask_map_gen)

lemma loc_mask_map2:
  "loc_mask df (map2 (\<and>) (map p df) (map q df)) = filter (\<lambda>(i, r). p r \<and> q r) (enumerate 0 df)"
proof -
  have "map2 (\<and>) (map p df) (map q df) = map (\<lambda>r. p r \<and> q r) df"
    by (induction df) auto
  then show ?thesis by (simp add: loc_mask_map)
qed

lemma map_filter_enumerate:
  "map (\<lambda>(i, r). f r) (filter (\<lambda>(i, r). p r) (enumerate n xs)) = map f (filter p xs)"
  by (induction xs arbitrary: n) auto

lemma distinct_fst_filter_enumerate:
  "distinct (map fst (filter q (enumerate n xs)))"
  by (rule distinct_map_filter) simp

lemma objects_loop_append:
  assumes "distinct (map fst res)" and "set idx \<subseteq> fst ` set res"
  shows "objects_loop res idx v db =
     Inr (if idx = [] then db
          else db(v \<mapsto> (case db v of None \<Rightarrow> [] | Some es \<Rightarrow> es) @ map (\<lambda>i. the (map_of res i)) idx))"
  using assms
proof (induction idx arbitrary: db)
  case Nil
  show ?case by simp
next
  case (Cons i idx)
  from Cons.prems obtain vals where vals: "map_of res i = Some vals"
    by (metis (no_types, lifting) insert_subset list.simps(15) map_of_eq_None_iff not_Some_eq)
  from Cons.prems have sub: "set idx \<subseteq> fst ` set res" by simp
  show ?case
    by (cases "db v") (auto simp add: vals Cons.IH [OF Cons.prems(1) sub] fun_eq_iff)
qed

lemma map_of_fst_self:
  "distinct (map fst res) \<Longrightarrow> map (\<lambda>i. the (map_of res i)) (map fst res) = map snd res"
  by (induction res) (auto simp: rev_image_eqI)


lemma features_columns_entry:
  "features_columns [''feature-name'', ''feature-type'', ''s3-file-gdb-zip-location''] = Inr entry"
  by (simp add: features_column_def entry_def fun_eq_iff)

lemma getObjectsByVersionID_eq:
  "getObjectsByVersionID self v =
     Inr (if version_rows self v = [] then Map.empty
          else [v \<mapsto> map entry (version_rows self v)])"
proof -
  let ?sel = "filter (\<lambda>(i, r). s3_versionID r = S v) (enumerate 0 (Features self))"
  let ?res = "map (\<lambda>(i, r). (i, entry r)) ?sel"
  have fst_res: "map fst ?res = map fst ?sel"
    by (simp add: case_prod_unfold)
  have "map snd ?res = map (\<lambda>(i, r). entry r) ?sel"
    by (simp add: case_prod_unfold)
  then have snd_res: "map snd ?res = map entry (version_rows self v)"
    by (simp only: map_filter_enumerate version_rows_def)
  have dist: "distinct (map fst ?res)"
    unfolding fst_res by (rule distinct_fst_filter_enumerate)
  have empty_iff: "(?res = []) = (version_rows self v = [])"
    using snd_res by (metis map_is_Nil_conv)
  have loop: "objects_loop ?res (map fst ?res) v Map.empty =
      Inr (if ?res = [] then Map.empty else [v \<mapsto> map snd ?res])"
    using objects_loop_append [OF dist, of "map fst ?res" v Map.empty]
    by (simp add: map_of_fst_self [OF dist] del: map_map)
  have main: "getObjectsByVersionID self v =
      (if ?res = [] then Inr Map.empty else objects_loop ?res (map fst ?res) v Map.empty)"
    by (simp add: getObjectsByVersionID_def features_column_def features_columns_entry
        loc_mask_map Let_def del: features_columns.simps)
  show ?thesis
  proof (cases "version_rows self v = []")
    case True
    then have "?res = []" by (simp only: empty_iff)
    with main True show ?thesis by simp
  next
    case False
    then have ne: "?res \<noteq> []" by (simp only: empty_iff not_False_eq_True)
    from main ne have "getObjectsByVersionID self v = objects_loop ?res (map fst ?res) v Map.empty"
      by (simp only: if_False)
    with ne False show ?thesis by (simp only: loop if_False snd_res)
  qed
qed

text \<open>
  Claim C2. For every catalog and every version: when no row of the feature frame carries
  the version the query returns the empty mapping; otherwise it returns a mapping whose
  only key is the version, whose value lists the name, type and location of every row
  that carries it, in frame order, as many entries as there are such rows. The query
  raises nothing.
\<close>

theorem getObjectsByVersionID_single_key:
  "(version_rows self v = [] \<longrightarrow> getObjectsByVersionID self v = Inr Map.empty) \<and>
   (version_rows self v \<noteq> [] \<longrightarrow>
      (\<exists>db entries. getObjectsByVersionID self v = Inr db \<and> dom db = {v} \<and>
         db v = Some entries \<and> entries = map entry (version_rows self v) \<and>
         length entries = length (version_rows self v)))"
  by (simp add: getObjectsByVersionID_eq)


section \<open>Construction\<close>

lemma subscript0_Inr_iff: "(\<exists>b. subscript0 a = Inr b) = nonempty_sequence a"
  by (cases a rule: subscript0.cases) simp_all

lemma feature_row_data_Inr_iff:
  "(\<exists>r. feature_row_data d = Inr r) =
     (d ''feature-name'' \<noteq> None \<and> d ''s3-versionID'' \<noteq> None \<and>
      d ''feature-type'' \<noteq> None \<and> d ''s3-file-gdb-zip-location'' \<noteq> None)"
  by (auto simp: feature_row_data_def getitem_def split: option.splits)

lemma metadata_row_data_Inr:
  "(metadata_row_data d = Inr r) =
     (d ''feature-name'' = Some (md_feature_name r) \<and>
      d ''s3-versionID'' = Some (md_s3_versionID r) \<and> first_block d (md_fields r))"
  by (cases r) (auto simp: metadata_row_data_def getitem_def first_block_def
      split: option.splits sum.splits)

lemma metadata_row_data_Inr_iff:
  "(\<exists>r. metadata_row_data d = Inr r) =
     (d ''feature-name'' \<noteq> None \<and> d ''s3-versionID'' \<noteq> None \<and>
      (case d ''fields'' of None \<Rightarrow> False | Some fs \<Rightarrow> nonempty_sequence fs))"
  by (auto simp: metadata_row_data_def getitem_def subscript0_Inr_iff [symmetric]
      split: option.splits sum.splits)

lemma getCatalogFeatures_loop_Inr_iff:
  "(\<exists>out. getCatalogFeatures_loop recs df = Inr out) =
     (\<forall>d \<in> set recs. \<exists>r. feature_row_data d = Inr r)"
  by (induction recs arbitrary: df) (auto split: sum.splits)

lemma getCatalogMetadata_loop_Inr:
  "getCatalogMetadata_loop recs df = Inr out \<Longrightarrow>
     \<exists>rows. out = df @ rows \<and> list_all2 (\<lambda>d r. metadata_row_data d = Inr r) recs rows"
proof (induction recs arbitrary: df)
  case Nil
  then show ?case by simp
next
  case (Cons d recs)
  then show ?case
    by (fastforce split: sum.splits simp: list_all2_Cons1)
qed

lemma getCatalogMetadata_loop_Inr_iff:
  "(\<exists>out. getCatalogMetadata_loop recs df = Inr out) =
     (\<forall>d \<in> set recs. \<exists>r. metadata_row_data d = Inr r)"
  by (induction recs arbitrary: df) (auto split: sum.splits)

lemma indexable_iff:
  "indexable d = ((\<exists>r. feature_row_data d = Inr r) \<and> (\<exists>r. metadata_row_data d = Inr r))"
  unfolding feature_row_data_Inr_iff metadata_row_data_Inr_iff indexable_def by blast

lemma init_Inr_iff:
  assumes "queryCatalog scan tbl = Some (Inr records)"
  shows "(\<exists>self. init scan tbl = Some (Inr self)) = (\<forall>d \<in> set records. indexable d)"
proof -
  have "(\<exists>self. init scan tbl = Some (Inr self)) =
      ((\<exists>out. getCatalogFeatures_loop records [] = Inr out) \<and>
       (\<exists>out. getCatalogMetadata_loop records [] = Inr out))"
    by (auto simp: init_def assms getCatalogFeatures_def getCatalogMetadata_def
        split: sum.splits)
  then show ?thesis
    unfolding getCatalogFeatures_loop_Inr_iff getCatalogMetadata_loop_Inr_iff indexable_iff
    by blast
qed

lemma init_cases:
  assumes "queryCatalog scan tbl = Some (Inr records)"
  shows "(\<exists>self. init scan tbl = Some (Inr self)) \<or> (\<exists>e. init scan tbl = Some (Inl e))"
  by (auto simp: init_def assms split: sum.splits)

lemma init_Inr_scan:
  assumes "init scan tbl = Some (Inr self)"
  shows "queryCatalog scan tbl = Some (Inr (ds self))"
  using assms by (auto simp: init_def split: option.splits sum.splits)

text \<open>
  Claim C10. Construction yields a catalog only if every scanned record has the keys
  \<^verbatim>\<open>feature-name\<close>, \<^verbatim>\<open>s3-versionID\<close>, \<^verbatim>\<open>feature-type\<close>, \<^verbatim>\<open>s3-file-gdb-zip-location\<close> and a
  non-empty sequence under \<^verbatim>\<open>fields\<close>; when the scan returned and some record lacks one
  of them, construction raises and yields no catalog.
\<close>

theorem init_requires_indexable_records:
  "(init scan tbl = Some (Inr self) \<longrightarrow>
      queryCatalog scan tbl = Some (Inr (ds self)) \<and> (\<forall>d \<in> set (ds self). indexable d)) \<and>
   (queryCatalog scan tbl = Some (Inr records) \<and> (\<exists>d \<in> set records. \<not> indexable d) \<longrightarrow>
      (\<exists>e. init scan tbl = Some (Inl e)))"
proof (intro conjI impI)
  assume ok: "init scan tbl = Some (Inr self)"
  then show "queryCatalog scan tbl = Some (Inr (ds self))" by (rule init_Inr_scan)
  from this ok show "\<forall>d \<in> set (ds self). indexable d"
    using init_Inr_iff by blast
next
  assume bad: "queryCatalog scan tbl = Some (Inr records) \<and> (\<exists>d \<in> set records. \<not> indexable d)"
  then have "\<not> (\<exists>self. init scan tbl = Some (Inr self))"
    using init_Inr_iff by blast
  with bad show "\<exists>e. init scan tbl = Some (Inl e)"
    using init_cases by blast
qed

section \<open>Metadata lookup\<close>

lemma getMetaData_eq:
  "getMetaData self n v =
     Inr (map md_fields
            (filter (\<lambda>r. md_feature_name r = S n \<and> md_s3_versionID r = S v) (Metadata self)))"
  unfolding getMetaData_def Let_def loc_mask_map2 map_filter_enumerate
  by (simp add: metadata_column_def)

lemma list_all2_filter_related:
  assumes "list_all2 R xs ys" and "\<And>x y. R x y \<Longrightarrow> P x = Q y"
  shows "list_all2 R (filter P xs) (filter Q ys)"
  using assms(1)
proof (induction rule: list_all2_induct)
  case Nil
  show ?case by simp
next
  case (Cons x xs y ys)
  with assms(2) [of x y] show ?case by simp
qed

lemma init_Metadata:
  assumes "init scan tbl = Some (Inr self)"
  shows "list_all2 (\<lambda>d r. metadata_row_data d = Inr r) (ds self) (Metadata self)"
  using assms getCatalogMetadata_loop_Inr [of "ds self" "[]"]
  by (auto simp: init_def getCatalogMetadata_def split: option.splits sum.splits)

lemma getMetaData_blocks:
  assumes "init scan tbl = Some (Inr self)"
  shows "\<exists>result. getMetaData self n v = Inr result \<and>
           list_all2 first_block (matching_records self n v) result"
proof -
  let ?Q = "\<lambda>r. md_feature_name r = S n \<and> md_s3_versionID r = S v"
  let ?P = "\<lambda>d. d ''feature-name'' = Some (S n) \<and> d ''s3-versionID'' = Some (S v)"
  have "list_all2 (\<lambda>d r. metadata_row_data d = Inr r) (filter ?P (ds self)) (filter ?Q (Metadata self))"
    by (rule list_all2_filter_related [OF init_Metadata [OF assms]])
       (auto simp: metadata_row_data_Inr)
  then have "list_all2 first_block (filter ?P (ds self)) (map md_fields (filter ?Q (Metadata self)))"
    by (simp add: list_all2_map2 metadata_row_data_Inr list_all2_mono)
  then show ?thesis
    by (simp add: getMetaData_eq matching_records_def)
qed

text \<open>
  Claim C3. On a constructed catalog the metadata lookup raises nothing for any pair of
  feature name and version. Its result holds, for every scanned record that matches the
  pair, the first element of that record's fields sequence, in scan order: it is empty
  when no record matches, and when one record matches, with the list \<open>b # rest\<close> under
  \<^verbatim>\<open>fields\<close>, it is the one-element sequence of \<open>b\<close>; \<open>rest\<close> was dropped when the index
  was built.
\<close>

theorem getMetaData_first_block:
  assumes "init scan tbl = Some (Inr self)"
  shows "\<exists>result. getMetaData self n v = Inr result \<and>
           list_all2 first_block (matching_records self n v) result \<and>
           (matching_records self n v = [] \<longrightarrow> result = []) \<and>
           (\<forall>d b rest. matching_records self n v = [d] \<and> d ''fields'' = Some (L (b # rest))
              \<longrightarrow> result = [b])"
proof -
  from getMetaData_blocks [OF assms] obtain result
    where r: "getMetaData self n v = Inr result"
      and b: "list_all2 first_block (matching_records self n v) result"
    by blast
  have "result = [b]" if "matching_records self n v = [d]" "d ''fields'' = Some (L (b # rest))"
    for d b rest
    using b that by (auto simp: list_all2_Cons1 first_block_def)
  with r b show ?thesis by auto
qed

section \<open>The example catalog\<close>

lemma init_three_pages: "init three_pages ''jge-catalog-test-03'' = Some (Inr catalog3)"
  by (simp add: init_def queryCatalog_serves [OF three_pages_serves]
      getCatalogFeatures_def getCatalogMetadata_def feature_row_data_def metadata_row_data_def
      getitem_def rec1_def rec2_def rec3_def catalog3_def row1_def row2_def row3_def)

lemma version_rows_v2: "version_rows catalog3 ''v2'' = [row2, row3]"
  by (simp add: version_rows_def catalog3_def row1_def row2_def row3_def)

lemma version_rows_v9: "version_rows catalog3 ''v9'' = []"
  by (simp add: version_rows_def catalog3_def row1_def row2_def row3_def)

lemma matching_roads_v1: "matching_records catalog3 ''roads'' ''v1'' = [rec1]"
  by (simp add: matching_records_def catalog3_def rec1_def rec2_def rec3_def)

lemma matching_roads_v7: "matching_records catalog3 ''roads'' ''v7'' = []"
  by (simp add: matching_records_def catalog3_def rec1_def rec2_def rec3_def)

lemma one_page_scan: "queryCatalog one_page ''jge-catalog-test-03'' = Some (Inr [rec1, rec_no_fields])"
  by (rule queryCatalog_serves [of one_page _ "[[rec1, rec_no_fields]]", simplified])
     (simp add: one_page_def)

section \<open>Witnesses on the example catalog\<close>

theorem getObjectsByVersionID_single_key_witness:
  "(\<exists>db. getObjectsByVersionID catalog3 ''v2'' = Inr db \<and> dom db = {''v2''} \<and>
      db ''v2'' = Some [entry row2, entry row3]) \<and>
   getObjectsByVersionID catalog3 ''v9'' = Inr Map.empty"
  using getObjectsByVersionID_single_key [of catalog3 "''v2''"]
    getObjectsByVersionID_single_key [of catalog3 "''v9''"]
  by (simp add: version_rows_v2 version_rows_v9)

theorem getMetaData_first_block_witness:
  "init three_pages ''jge-catalog-test-03'' = Some (Inr catalog3) \<and>
   getMetaData catalog3 ''roads'' ''v1'' = Inr [S ''block1''] \<and>
   getMetaData catalog3 ''roads'' ''v7'' = Inr []"
proof -
  have f: "rec1 ''fields'' = Some (L (S ''block1'' # [S ''block2'']))"
    by (simp add: rec1_def)
  from getMetaData_first_block [OF init_three_pages, of "''roads''" "''v1''"]
  have a: "getMetaData catalog3 ''roads'' ''v1'' = Inr [S ''block1'']"
    using matching_roads_v1 f by auto
  from getMetaData_first_block [OF init_three_pages, of "''roads''" "''v7''"]
  have b: "getMetaData catalog3 ''roads'' ''v7'' = Inr []"
    using matching_roads_v7 by auto
  from a b init_three_pages show ?thesis by simp
qed

theorem init_requires_indexable_records_witness:
  "init three_pages ''jge-catalog-test-03'' = Some (Inr catalog3) \<and>
   list_all indexable [rec1, rec2, rec3] \<and>
   \<not> indexable rec_no_fields \<and>
   (\<exists>e. init one_page ''jge-catalog-test-03'' = Some (Inl e))"
proof -
  have bad: "\<not> indexable rec_no_fields"
    by (simp add: indexable_def rec_no_fields_def)
  from init_requires_indexable_records [of three_pages "''jge-catalog-test-03''" catalog3]
  have a: "list_all indexable [rec1, rec2, rec3]"
    using init_three_pages by (simp add: catalog3_def)
  from init_requires_indexable_records
    [of one_page "''jge-catalog-test-03''" _ "[rec1, rec_no_fields]"]
  have b: "\<exists>e. init one_page ''jge-catalog-test-03'' = Some (Inl e)"
    using one_page_scan bad by simp
  from a b bad init_three_pages show ?thesis by simp
qed

section \<open>Dumping the catalog\<close>

text \<open>
  Claim C9. A dump is the scan of the table the object names, on the store as it is at
  the call: two calls on an unchanged store give equal results, whether made on the same
  object or on any object of the same table, whatever scan and frames the object cached at
  construction; and when the store serves pages, the dump is their concatenation.
\<close>

theorem dumps_fresh_scan:
  "dumps scan self = queryCatalog scan (table self) \<and>
   (table other = table self \<longrightarrow> dumps scan other = dumps scan self) \<and>
   (serves scan (table self) pages \<longrightarrow> dumps scan self = Some (Inr (concat pages)))"
  by (simp add: dumps_def queryCatalog_serves)

theorem dumps_fresh_scan_witness:
  "dumps three_pages catalog3 = Some (Inr [rec1, rec2, rec3]) \<and>
   dumps three_pages stale_catalog = dumps three_pages catalog3"
proof -
  have t: "table catalog3 = ''jge-catalog-test-03''" "table stale_catalog = table catalog3"
    by (simp_all add: catalog3_def stale_catalog_def)
  have s: "serves three_pages (table catalog3) [[rec1], [rec2, rec3], []]"
    using three_pages_serves by (simp only: t)
  have c: "concat [[rec1], [rec2, rec3], []] = [rec1, rec2, rec3]"
    by simp
  from dumps_fresh_scan [of three_pages catalog3 stale_catalog "[[rec1], [rec2, rec3], []]"] s t(2)
  show ?thesis
    unfolding c by blast
qed

section \<open>Fetching a version that no row carries\<close>

lemma download_s3_zip_step1:
  "download_s3_zip stage self v =
     (case version_rows self v of
        [] \<Rightarrow> Inl IndexError
      | r # _ \<Rightarrow>
          (case extractBucketAndKey (s3_file_gdb_zip_location r) of
             Inl e \<Rightarrow> Inl e
           | Inr (bucket, key) \<Rightarrow> stage bucket key))"
proof -
  have cols: "features_columns [''s3-file-gdb-zip-location''] = Inr (\<lambda>r. [s3_file_gdb_zip_location r])"
    by (simp add: features_column_def)
  have "map (\<lambda>(i, r). [s3_file_gdb_zip_location r])
          (take 1 (filter (\<lambda>(i, r). s3_versionID r = S v) (enumerate 0 (Features self))))
        = map (\<lambda>r. [s3_file_gdb_zip_location r]) (take 1 (version_rows self v))"
    by (simp add: take_map [symmetric] map_filter_enumerate version_rows_def del: One_nat_def)
  then show ?thesis
    unfolding download_s3_zip_def Let_def cols getFeatures_def
    by (simp add: features_column_def loc_mask_map take_Suc split: list.splits del: features_columns.simps)
qed

text \<open>
  Claim C4 asks that fetching a version without a row in the feature frame ends with an
  explicit not-found error. The source has no check for it: step 1 reads \<^verbatim>\<open>s3_key[0][0]\<close>
  of an empty selection, and the fetch ends with \<^verbatim>\<open>IndexError\<close>, before the location is
  parsed and before anything is downloaded.
\<close>

theorem download_s3_zip_absent_version:
  "version_rows self v = [] \<Longrightarrow> download_s3_zip stage self v = Inl IndexError"
  by (simp add: download_s3_zip_step1)

theorem download_s3_zip_absent_version_witness:
  "version_rows catalog3 ''v9'' = [] \<and>
   download_s3_zip (\<lambda>bucket key. Inr ''temp/x'') catalog3 ''v9'' = Inl IndexError"
  using download_s3_zip_absent_version [OF version_rows_v9] version_rows_v9 by simp

section \<open>Compiling a geodatabase\<close>

lemma compile_loop_kept:
  "only_read_failures entry_of names \<Longrightarrow>
     compile_loop entry_of names d = Inr (kept entry_of names ++ d)"
proof (induction names arbitrary: d)
  case Nil
  show ?case by (simp add: kept_def fun_eq_iff map_add_def)
next
  case (Cons name rest)
  from Cons.prems have rest: "only_read_failures entry_of rest"
    by (simp add: only_read_failures_def)
  show ?case
  proof (cases "entry_of name")
    case (Inl err)
    with Cons.prems have "err = ExecuteError"
      by (simp add: only_read_failures_def)
    with Inl show ?thesis
      by (auto simp: Cons.IH [OF rest] kept_def fun_eq_iff map_add_def split: option.splits)
  next
    case (Inr e)
    then show ?thesis
      by (auto simp: Cons.IH [OF rest] kept_def fun_eq_iff map_add_def split: option.splits)
  qed
qed


lemma compileDataset_kept:
  assumes "ListRasters reader (Some path) = Inr rasters"
    and "ListFeatureClasses reader (Some path) = Inr vectors"
    and "only_read_failures (raster_entry reader (Some path) v) rasters"
    and "only_read_failures (vector_entry reader (Some path) v) vectors"
  shows "compileDataset reader path v =
     (Inr [kept (vector_entry reader (Some path) v) vectors ++
           kept (raster_entry reader (Some path) v) rasters], None)"
  by (simp add: compileDataset_def Let_def assms(1,2) compile_loop_kept [OF assms(3)]
      compile_loop_kept [OF assms(4)])

lemma compileDataset_workspace:
  "snd (compileDataset reader path v) =
     (case fst (compileDataset reader path v) of Inl e \<Rightarrow> Some path | Inr dataset \<Rightarrow> None)"
  by (simp add: compileDataset_def Let_def split: sum.splits)





lemma archive_lists:
  "ListRasters (archive_reader r) (Some ''temp/dem.gdb'') = Inr [''R1'']"
  "ListFeatureClasses (archive_reader r) (Some ''temp/dem.gdb'') = Inr [''V1'']"
  by (simp_all add: archive_reader_def)

lemma archive_vector:
  "vector_entry (archive_reader r) (Some ''temp/dem.gdb'') v ''V1'' =
     Inr \<lparr>layer_s3_versionID = v, layer_feature_type = ''Feature Class'',
          layer_shape = [5], layer_columns = [''OBJECTID'', ''Shape'', ''name''],
          layer_data = [\<lparr>shape = [5], payload = ''rows''\<rparr>]\<rparr>"
  by (simp add: vector_entry_def archive_reader_def)

lemma archive_raster:
  "raster_entry (archive_reader (Inr grid)) (Some ''temp/dem.gdb'') v ''R1'' =
     Inr \<lparr>layer_s3_versionID = v, layer_feature_type = ''Raster Dataset'',
          layer_shape = [10, 10], layer_columns = [], layer_data = [grid]\<rparr>"
  "raster_entry (archive_reader (Inl e)) (Some ''temp/dem.gdb'') v ''R1'' = Inl e"
  by (simp_all add: raster_entry_def archive_reader_def grid_def)

lemma archive_only_read_failures:
  "only_read_failures (vector_entry (archive_reader r) (Some ''temp/dem.gdb'') v) [''V1'']"
  "only_read_failures (raster_entry (archive_reader (Inr grid)) (Some ''temp/dem.gdb'') v) [''R1'']"
  "only_read_failures (raster_entry (archive_reader (Inl ExecuteError)) (Some ''temp/dem.gdb'') v) [''R1'']"
  by (simp_all add: only_read_failures_def archive_vector archive_raster)





text \<open>
  Claim C7, amended. When compiling returns, the reader's workspace is unset. When
  compiling ends with an exception, the workspace is still the path of the geodatabase:
  the assignment \<^verbatim>\<open>arcpy.env.workspace = None\<close> is the last statement before \<^verbatim>\<open>return\<close> and
  is not reached.
\<close>

theorem compileDataset_resets_on_return:
  "(fst (compileDataset reader path v) = Inr dataset \<longrightarrow>
       snd (compileDataset reader path v) = None) \<and>
   (fst (compileDataset reader path v) = Inl e \<longrightarrow>
       snd (compileDataset reader path v) = Some path)"
  by (simp add: compileDataset_workspace)


theorem compileDataset_resets_on_return_witness:
  "snd (compileDataset (archive_reader (Inr grid)) ''temp/dem.gdb'' ''v2'') = None \<and>
   snd (compileDataset (archive_reader (Inl (OtherError ''MemoryError''))) ''temp/dem.gdb'' ''v2'') =
     Some ''temp/dem.gdb''"
proof -
  have a: "\<exists>dataset. fst (compileDataset (archive_reader (Inr grid)) ''temp/dem.gdb'' ''v2'') = Inr dataset"
    by (simp add: compileDataset_kept [OF archive_lists(1) archive_lists(2)
        archive_only_read_failures(2) archive_only_read_failures(1)])
  have b: "fst (compileDataset (archive_reader (Inl (OtherError ''MemoryError''))) ''temp/dem.gdb'' ''v2'')
      = Inl (OtherError ''MemoryError'')"
    by (simp add: compileDataset_def archive_lists archive_raster)
  from a b show ?thesis
    using compileDataset_resets_on_return [of "archive_reader (Inr grid)" "''temp/dem.gdb''" "''v2''"]
      compileDataset_resets_on_return [of "archive_reader (Inl (OtherError ''MemoryError''))"
        "''temp/dem.gdb''" "''v2''" _ "OtherError ''MemoryError''"]
    by auto
qed

text \<open>
  The claim fails where compiling ends with an exception: a raster whose read raises
  \<^verbatim>\<open>RuntimeError\<close>, which the compiler does not catch, leaves the workspace set.
\<close>

theorem compileDataset_leaves_workspace_set:
  "compileDataset (archive_reader (Inl (OtherError ''RuntimeError''))) ''temp/dem.gdb'' ''v2'' =
     (Inl (OtherError ''RuntimeError''), Some ''temp/dem.gdb'')"
  by (simp add: compileDataset_def archive_lists archive_raster)

section \<open>Parsing a storage location\<close>

lemma lazy_group_split:
  "CHR ''/'' \<notin> set b \<Longrightarrow> CHR 0x0A \<notin> set b \<Longrightarrow> lazy_group (b @ CHR ''/'' # rest) = Some (b, rest)"
  by (induction b) auto

lemma lazy_group_Some:
  "lazy_group s = Some (g, rest) \<Longrightarrow>
     s = g @ CHR ''/'' # rest \<and> CHR ''/'' \<notin> set g \<and> CHR 0x0A \<notin> set g"
proof (induction s arbitrary: g)
  case Nil
  then show ?case by simp
next
  case (Cons c cs)
  then show ?case
    by (auto split: if_splits option.splits)
qed

lemma greedy_group_line: "CHR 0x0A \<notin> set k \<Longrightarrow> greedy_group k = k"
  by (auto simp: greedy_group_def)

lemma bucket_and_key_match_split:
  assumes "CHR ''/'' \<notin> set bucket" and "CHR 0x0A \<notin> set bucket"
  shows "bucket_and_key_match (''s3://'' @ bucket @ ''/'' @ rest) = Some (bucket, greedy_group rest)"
  using lazy_group_split [OF assms, of rest]
  by (simp add: bucket_and_key_match_def)

lemma bucket_and_key_match_None:
  assumes "\<forall>b rest. CHR 0x0A \<notin> set b \<longrightarrow> s \<noteq> ''s3://'' @ b @ ''/'' @ rest"
  shows "bucket_and_key_match s = None"
proof (rule ccontr)
  assume "bucket_and_key_match s \<noteq> None"
  then obtain g rest where p: "take 5 s = ''s3://''" and l: "lazy_group (drop 5 s) = Some (g, rest)"
    by (auto simp: bucket_and_key_match_def split: if_splits option.splits)
  from lazy_group_Some [OF l] have d: "drop 5 s = g @ CHR ''/'' # rest" and n: "CHR 0x0A \<notin> set g"
    by simp_all
  have "s = take 5 s @ drop 5 s" by simp
  with p d have "s = ''s3://'' @ g @ ''/'' @ rest" by simp
  with assms n show False by blast
qed

lemma bucket_and_key_match_Some:
  assumes "bucket_and_key_match s = Some (b, k)"
  shows "\<exists>rest. s = ''s3://'' @ b @ ''/'' @ k @ rest \<and> CHR ''/'' \<notin> set b \<and>
           CHR 0x0A \<notin> set b \<and> CHR 0x0A \<notin> set k"
proof -
  from assms obtain rest where p: "take 5 s = ''s3://''"
    and l: "lazy_group (drop 5 s) = Some (b, rest)" and k: "k = greedy_group rest"
    by (auto simp: bucket_and_key_match_def split: if_splits option.splits)
  from lazy_group_Some [OF l] have d: "drop 5 s = b @ CHR ''/'' # rest"
    and n: "CHR ''/'' \<notin> set b" "CHR 0x0A \<notin> set b"
    by simp_all
  have "s = take 5 s @ drop 5 s" by simp
  with p d have s: "s = ''s3://'' @ b @ ''/'' @ rest" by simp
  have r: "rest = k @ dropWhile (\<lambda>c. c \<noteq> CHR 0x0A) rest"
    by (simp add: k greedy_group_def)
  have "CHR 0x0A \<notin> set k"
    unfolding k greedy_group_def by (auto dest: set_takeWhileD)
  with s r n show ?thesis by metis
qed

text \<open>
  Claim C8, amended. A string \<^verbatim>\<open>s3://bucket/key\<close>, with the literal scheme \<^verbatim>\<open>s3\<close>, a bucket
  free of slashes and line feeds and a key free of line feeds, parses to the pair of bucket
  and key. A string that is not \<^verbatim>\<open>s3://\<close>, a run without line feed, a slash and a rest
  makes the parse raise \<^verbatim>\<open>TypeError\<close>, which no caller catches. Whenever the parse returns
  a pair, the string starts with \<^verbatim>\<open>s3://\<close>, the bucket, a slash and the key.
\<close>

theorem extractBucketAndKey_s3_form:
  "(CHR ''/'' \<notin> set bucket \<and> CHR 0x0A \<notin> set bucket \<and> CHR 0x0A \<notin> set key \<longrightarrow>
      extractBucketAndKey (S (''s3://'' @ bucket @ ''/'' @ key)) = Inr (bucket, key)) \<and>
   ((\<forall>b rest. CHR 0x0A \<notin> set b \<longrightarrow> s \<noteq> ''s3://'' @ b @ ''/'' @ rest) \<longrightarrow>
      extractBucketAndKey (S s) = Inl TypeError) \<and>
   (extractBucketAndKey (S s) = Inr (b, k) \<longrightarrow>
      (\<exists>rest. s = ''s3://'' @ b @ ''/'' @ k @ rest \<and> CHR ''/'' \<notin> set b \<and>
           CHR 0x0A \<notin> set b \<and> CHR 0x0A \<notin> set k))"
proof (intro conjI impI)
  assume "CHR ''/'' \<notin> set bucket \<and> CHR 0x0A \<notin> set bucket \<and> CHR 0x0A \<notin> set key"
  then show "extractBucketAndKey (S (''s3://'' @ bucket @ ''/'' @ key)) = Inr (bucket, key)"
    by (simp add: extractBucketAndKey_def bucket_and_key_match_split greedy_group_line
        del: append.simps)
next
  assume "\<forall>b rest. CHR 0x0A \<notin> set b \<longrightarrow> s \<noteq> ''s3://'' @ b @ ''/'' @ rest"
  then show "extractBucketAndKey (S s) = Inl TypeError"
    by (simp add: extractBucketAndKey_def bucket_and_key_match_None)
next
  assume "extractBucketAndKey (S s) = Inr (b, k)"
  then have "bucket_and_key_match s = Some (b, k)"
    by (auto simp: extractBucketAndKey_def split: option.splits)
  then show "\<exists>rest. s = ''s3://'' @ b @ ''/'' @ k @ rest \<and> CHR ''/'' \<notin> set b \<and>
           CHR 0x0A \<notin> set b \<and> CHR 0x0A \<notin> set k"
    by (rule bucket_and_key_match_Some)
qed

theorem extractBucketAndKey_s3_form_witness:
  "extractBucketAndKey (S ''s3://geo/data/roads.zip'') = Inr (''geo'', ''data/roads.zip'') \<and>
   extractBucketAndKey (S ''geo/data/roads.zip'') = Inl TypeError"
proof -
  have a: "extractBucketAndKey (S (''s3://'' @ ''geo'' @ ''/'' @ ''data/roads.zip'')) =
      Inr (''geo'', ''data/roads.zip'')"
    using extractBucketAndKey_s3_form [of "''geo''" "''data/roads.zip''"] by simp
  have "\<forall>b rest. CHR 0x0A \<notin> set b \<longrightarrow> ''geo/data/roads.zip'' \<noteq> ''s3://'' @ b @ ''/'' @ rest"
    by simp
  then have b: "extractBucketAndKey (S ''geo/data/roads.zip'') = Inl TypeError"
    using extractBucketAndKey_s3_form [of _ _ "''geo/data/roads.zip''"] by blast
  from a b show ?thesis by simp
qed

text \<open>
  The claim fails for a scheme other than \<^verbatim>\<open>s3\<close>: a string of the form
  \<^verbatim>\<open>scheme://bucket/key\<close> that the parser rejects.
\<close>

theorem extractBucketAndKey_other_scheme:
  "extractBucketAndKey (S (''gs'' @ ''://'' @ ''bucket'' @ ''/'' @ ''key'')) = Inl TypeError"
  by (simp add: extractBucketAndKey_def bucket_and_key_match_def)

end
